theory Spec2Isabelle
  imports Complex_Main
begin

section \<open>Python values, exceptions and dictionaries\<close>

text \<open>
  The adapter \<^verbatim>\<open>VecEnvBase\<close> of \<^verbatim>\<open>vec_env_base.py\<close> raises no exception of its own:
  what can go wrong is an attribute that was never assigned, a key missing from a
  dictionary, and whatever the simulation host, the task or the seeding utility raise.
\<close>

datatype exn = AttributeError string | KeyError string | HostError string

datatype pyval = PyNone | PyBool bool | PyInt int | PyStr string

text \<open>Python's truth value of an object, as \<^verbatim>\<open>if v:\<close> tests it.\<close>

fun truthy :: "pyval \<Rightarrow> bool" where
  "truthy PyNone = False"
| "truthy (PyBool b) = b"
| "truthy (PyInt n) = (n \<noteq> 0)"
| "truthy (PyStr s) = (s \<noteq> [])"

text \<open>
  A dictionary with string keys is an association list (a Python \<^verbatim>\<open>dict\<close> keeps the
  insertion order); a lookup reads the first binding of the key. The argument
  \<^verbatim>\<open>sim_params\<close> is such a dictionary or \<^verbatim>\<open>None\<close>.
\<close>

type_synonym pydict = "(string \<times> pyval) list"

text \<open>\<^verbatim>\<open>if sim_params\<close>: \<^verbatim>\<open>None\<close> and the empty dictionary are false.\<close>

definition params_truthy :: "pydict option \<Rightarrow> bool" where
  "params_truthy sim_params = (case sim_params of None \<Rightarrow> False | Some d \<Rightarrow> d \<noteq> [])"

text \<open>\<^verbatim>\<open>key in sim_params\<close>, evaluated only where \<^verbatim>\<open>sim_params\<close> is a dictionary.\<close>

definition params_contains :: "string \<Rightarrow> pydict option \<Rightarrow> bool" where
  "params_contains k sim_params =
     (case sim_params of None \<Rightarrow> False | Some d \<Rightarrow> map_of d k \<noteq> None)"

text \<open>\<^verbatim>\<open>sim_params[key]\<close>, a \<^verbatim>\<open>KeyError\<close> where the key is missing.\<close>

definition params_getitem :: "pydict option \<Rightarrow> string \<Rightarrow> exn + pyval" where
  "params_getitem sim_params k =
     (case sim_params of
        None \<Rightarrow> Inl (KeyError k)
      | Some d \<Rightarrow> (case map_of d k of None \<Rightarrow> Inl (KeyError k) | Some v \<Rightarrow> Inr v))"


section \<open>The collaborators outside the adapter\<close>

text \<open>
  The simulation application, the world, the task, the settings registry, the extension
  manager, the stage and the seeding utility are not part of the file. Each of their
  operations is a parameter of the model: a function on an opaque outside state \<open>'x\<close>
  that returns the new outside state and either an exception or a result. The model
  records every call the adapter makes, in order, in \<open>calls\<close>; the entry is appended
  before the collaborator runs, so a call that raises is recorded as well.

  Objects of the host (the application, the world) are handles. The buffers that travel
  between policy and task (actions, observations, rewards, dones) have type \<open>'b\<close>, the
  space descriptors type \<open>'sp\<close>.
\<close>

type_synonym handle = nat

text \<open>
  The value of the float expression \<^verbatim>\<open>1.0 / 60.0\<close>. IEEE 754 division rounds the
  quotient to the nearest double; between 1/64 and 1/32 the doubles are the multiples of
  \<open>1 / 2 ^ 58\<close>, and the one nearest to 1/60 is 4803839602528529 of them.
\<close>

definition float_1_div_60 :: rat where
  "float_1_div_60 = 4803839602528529 / 2 ^ 58"

text \<open>
  The keyword arguments of \<^verbatim>\<open>World(...)\<close>. The two float arguments are kept as the
  rational numbers that the doubles denote: \<^verbatim>\<open>1.0\<close> is 1, and \<^verbatim>\<open>1.0 / 60.0\<close> is
  the double \<open>float_1_div_60\<close> above.
\<close>

record world_args =
  stage_units_in_meters :: rat
  rendering_dt :: rat
  world_backend :: string
  world_sim_params :: "pydict option"
  world_device :: string

datatype 'b call =
    Environ_getitem string
  | SimulationApp_init bool int string
  | Settings_set string bool
  | World_init world_args
  | World_add_task handle
  | World_reset handle
  | World_step handle bool
  | World_render handle
  | Gym_Env_render string
  | Set_extension_enabled_immediate string bool
  | RootLayer_Clear
  | SimulationApp_close handle
  | Set_seed int
  | Pre_physics_step 'b
  | Get_observations
  | Calculate_metrics
  | Is_done
  | Task_reset

record ('b, 'x) outside =
  ext :: 'x
  calls :: "'b call list"

type_synonym ('r, 'x) extcall = "'x \<Rightarrow> (exn + 'r) \<times> 'x"

text \<open>One call to a collaborator: the call is recorded, then the collaborator runs.\<close>

definition invoke ::
  "'b call \<Rightarrow> ('r, 'x) extcall \<Rightarrow> ('b, 'x) outside \<Rightarrow> (exn + 'r) \<times> ('b, 'x) outside" where
  "invoke c h out =
     (case h (ext out) of (r, x') \<Rightarrow> (r, \<lparr>ext = x', calls = calls out @ [c]\<rparr>))"

text \<open>
  The task: the three attributes it declares and its five hooks. Reading an attribute of
  the task reads the record; the hooks act on the outside state only.
\<close>

record ('b, 'sp, 'x) task =
  t_num_envs :: int
  t_observation_space :: 'sp
  t_action_space :: 'sp
  pre_physics_step :: "'b \<Rightarrow> (unit, 'x) extcall"
  get_observations :: "('b, 'x) extcall"
  calculate_metrics :: "('b, 'x) extcall"
  is_done :: "('b, 'x) extcall"
  t_reset :: "(unit, 'x) extcall"

text \<open>
  The host: \<^verbatim>\<open>SimulationApp\<close>, \<^verbatim>\<open>carb.settings\<close>, \<^verbatim>\<open>World\<close> and its methods,
  \<^verbatim>\<open>gym.Env.render\<close>, the extension manager, the stage's root layer and
  \<^verbatim>\<open>set_seed\<close>.
\<close>

record ('b, 'sp, 'x) host =
  SimulationApp :: "bool \<Rightarrow> int \<Rightarrow> string \<Rightarrow> (handle, 'x) extcall"
  simulation_app_close :: "handle \<Rightarrow> (unit, 'x) extcall"
  settings_set :: "string \<Rightarrow> bool \<Rightarrow> (unit, 'x) extcall"
  World :: "world_args \<Rightarrow> (handle, 'x) extcall"
  world_add_task :: "handle \<Rightarrow> ('b, 'sp, 'x) task \<Rightarrow> (unit, 'x) extcall"
  world_reset :: "handle \<Rightarrow> (unit, 'x) extcall"
  world_step :: "handle \<Rightarrow> bool \<Rightarrow> (unit, 'x) extcall"
  world_render :: "handle \<Rightarrow> (unit, 'x) extcall"
  gym_Env_render :: "string \<Rightarrow> (unit, 'x) extcall"
  set_extension_enabled_immediate :: "string \<Rightarrow> bool \<Rightarrow> (unit, 'x) extcall"
  root_layer_clear :: "(unit, 'x) extcall"
  set_seed :: "int \<Rightarrow> (int, 'x) extcall"


section \<open>The adapter\<close>

text \<open>
  The attributes of a \<^verbatim>\<open>VecEnvBase\<close> object. The source's \<^verbatim>\<open>_render\<close>,
  \<^verbatim>\<open>_world\<close>, \<^verbatim>\<open>_task\<close>, \<^verbatim>\<open>_num_envs\<close> and \<^verbatim>\<open>_simulation_app\<close> are written
  with the prefix \<open>p_\<close>. An attribute that \<^verbatim>\<open>__init__\<close> does not assign is \<open>None\<close>
  until \<^verbatim>\<open>set_task\<close> assigns it; reading it before raises \<^verbatim>\<open>AttributeError\<close>.
  Only the adapter's own methods assign its attributes.
\<close>

record ('b, 'sp, 'x) VecEnvBase =
  p_simulation_app :: handle
  p_render :: bool
  sim_frame_count :: int
  p_world :: "handle option"
  p_task :: "('b, 'sp, 'x) task option"
  p_num_envs :: "int option"
  observation_space :: "'sp option"
  action_space :: "'sp option"

text \<open>
  \<^verbatim>\<open>__init__(self, headless, sim_device)\<close>. The process environment \<^verbatim>\<open>os.environ\<close>
  is the map \<open>environ\<close>; it is read, with a \<^verbatim>\<open>KeyError\<close> where the variable is not
  set, only inside \<^verbatim>\<open>if headless\<close>. When an exception leaves the constructor there is
  no object.
\<close>

definition init ::
  "('b, 'sp, 'x) host \<Rightarrow> (string \<rightharpoonup> string) \<Rightarrow> bool \<Rightarrow> int \<Rightarrow> ('b, 'x) outside
     \<Rightarrow> (exn + ('b, 'sp, 'x) VecEnvBase) \<times> ('b, 'x) outside" where
  "init h environ headless sim_device out =
     (case (if headless then
              (case environ ''EXP_PATH'' of
                 None \<Rightarrow> (Inl (KeyError ''EXP_PATH''),
                          out\<lparr>calls := calls out @ [Environ_getitem ''EXP_PATH'']\<rparr>)
               | Some p \<Rightarrow> (Inr (p @ ''/omni.isaac.sim.python.gym.headless.kit''),
                            out\<lparr>calls := calls out @ [Environ_getitem ''EXP_PATH'']\<rparr>))
            else (Inr '''', out)) of
        (Inl e, out1) \<Rightarrow> (Inl e, out1)
      | (Inr experience, out1) \<Rightarrow>
          (case invoke (SimulationApp_init headless sim_device experience)
                       (SimulationApp h headless sim_device experience) out1 of
             (Inl e, out2) \<Rightarrow> (Inl e, out2)
           | (Inr app, out2) \<Rightarrow>
               (case invoke (Settings_set ''/persistent/omnihydra/useSceneGraphInstancing'' True)
                            (settings_set h ''/persistent/omnihydra/useSceneGraphInstancing'' True)
                            out2 of
                  (Inl e, out3) \<Rightarrow> (Inl e, out3)
                | (Inr u, out3) \<Rightarrow>
                    (Inr \<lparr>p_simulation_app = app, p_render = (\<not> headless),
                          sim_frame_count = 0, p_world = None, p_task = None,
                          p_num_envs = None, observation_space = None,
                          action_space = None\<rparr>, out3))))"

text \<open>
  The device string of \<^verbatim>\<open>set_task\<close>: \<^verbatim>\<open>"cpu"\<close>, replaced by \<^verbatim>\<open>"cuda"\<close> inside the
  two nested tests.
\<close>

definition select_device :: "pydict option \<Rightarrow> exn + string" where
  "select_device sim_params =
     (if params_truthy sim_params \<and> params_contains ''use_gpu_pipeline'' sim_params then
        (case params_getitem sim_params ''use_gpu_pipeline'' of
           Inl e \<Rightarrow> Inl e
         | Inr v \<Rightarrow> Inr (if truthy v then ''cuda'' else ''cpu''))
      else Inr ''cpu'')"

text \<open>
  The viewport part of \<^verbatim>\<open>set_task\<close>: the extension is switched off where
  \<^verbatim>\<open>enable_viewport\<close> is present and false.
\<close>

definition disable_viewport ::
  "('b, 'sp, 'x) host \<Rightarrow> pydict option \<Rightarrow> ('b, 'x) outside \<Rightarrow> (exn + unit) \<times> ('b, 'x) outside" where
  "disable_viewport h sim_params out =
     (if params_truthy sim_params \<and> params_contains ''enable_viewport'' sim_params then
        (case params_getitem sim_params ''enable_viewport'' of
           Inl e \<Rightarrow> (Inl e, out)
         | Inr v \<Rightarrow>
             (if \<not> truthy v then
                invoke (Set_extension_enabled_immediate ''omni.kit.window.viewport'' False)
                       (set_extension_enabled_immediate h ''omni.kit.window.viewport'' False) out
              else (Inr (), out)))
      else (Inr (), out))"

text \<open>
  \<^verbatim>\<open>set_task(self, task, backend, sim_params, init_sim)\<close>. An assignment to
  \<open>self\<close> made before an exception stays.
\<close>

definition set_task ::
  "('b, 'sp, 'x) host \<Rightarrow> ('b, 'sp, 'x) task \<Rightarrow> string \<Rightarrow> pydict option \<Rightarrow> bool
     \<Rightarrow> ('b, 'sp, 'x) VecEnvBase \<Rightarrow> ('b, 'x) outside
     \<Rightarrow> (exn + unit) \<times> ('b, 'sp, 'x) VecEnvBase \<times> ('b, 'x) outside" where
  "set_task h task backend sim_params init_sim self out =
     (case select_device sim_params of
        Inl e \<Rightarrow> (Inl e, self, out)
      | Inr device \<Rightarrow>
          (case invoke (World_init \<lparr>stage_units_in_meters = 1, rendering_dt = float_1_div_60,
                                    world_backend = backend, world_sim_params = sim_params,
                                    world_device = device\<rparr>)
                       (World h \<lparr>stage_units_in_meters = 1, rendering_dt = float_1_div_60,
                                 world_backend = backend, world_sim_params = sim_params,
                                 world_device = device\<rparr>) out of
             (Inl e, out1) \<Rightarrow> (Inl e, self, out1)
           | (Inr w, out1) \<Rightarrow>
               (case invoke (World_add_task w) (world_add_task h w task) out1 of
                  (Inl e, out2) \<Rightarrow> (Inl e, self\<lparr>p_world := Some w\<rparr>, out2)
                | (Inr u, out2) \<Rightarrow>
                    (let self' = self\<lparr>p_world := Some w, p_task := Some task,
                                      p_num_envs := Some (t_num_envs task),
                                      observation_space := Some (t_observation_space task),
                                      action_space := Some (t_action_space task)\<rparr>
                     in (case disable_viewport h sim_params out2 of
                           (Inl e, out3) \<Rightarrow> (Inl e, self', out3)
                         | (Inr u', out3) \<Rightarrow>
                             (if init_sim then
                                (case invoke (World_reset w) (world_reset h w) out3 of
                                   (r, out4) \<Rightarrow> (r, self', out4))
                              else (Inr (), self', out3)))))))"

text \<open>
  \<^verbatim>\<open>render(self, mode)\<close>. The base class's \<^verbatim>\<open>gym.Env.render(self, mode=mode)\<close>
  belongs to the gym library and is a parameter of the host: it may return or raise. It
  receives \<open>self\<close>; like every collaborator it is taken to assign no attribute of the
  adapter.
\<close>

definition render ::
  "('b, 'sp, 'x) host \<Rightarrow> string \<Rightarrow> ('b, 'sp, 'x) VecEnvBase \<Rightarrow> ('b, 'x) outside
     \<Rightarrow> (exn + unit) \<times> ('b, 'sp, 'x) VecEnvBase \<times> ('b, 'x) outside" where
  "render h mode self out =
     (if mode = ''human'' then
        (case p_world self of
           None \<Rightarrow> (Inl (AttributeError ''_world''), self, out)
         | Some w \<Rightarrow> (case invoke (World_render w) (world_render h w) out of
                        (r, out1) \<Rightarrow> (r, self, out1)))
      else
        (case invoke (Gym_Env_render mode) (gym_Env_render h mode) out of
           (r, out1) \<Rightarrow> (r, self, out1)))"

text \<open>\<^verbatim>\<open>close(self)\<close>.\<close>

definition close ::
  "('b, 'sp, 'x) host \<Rightarrow> ('b, 'sp, 'x) VecEnvBase \<Rightarrow> ('b, 'x) outside
     \<Rightarrow> (exn + unit) \<times> ('b, 'sp, 'x) VecEnvBase \<times> ('b, 'x) outside" where
  "close h self out =
     (case invoke RootLayer_Clear (root_layer_clear h) out of
        (Inl e, out1) \<Rightarrow> (Inl e, self, out1)
      | (Inr u, out1) \<Rightarrow>
          (case invoke (SimulationApp_close (p_simulation_app self))
                       (simulation_app_close h (p_simulation_app self)) out1 of
             (r, out2) \<Rightarrow> (r, self, out2)))"

text \<open>\<^verbatim>\<open>seed(self, seed)\<close>: the value goes to \<^verbatim>\<open>set_seed\<close> as it is.\<close>

definition seed ::
  "('b, 'sp, 'x) host \<Rightarrow> int \<Rightarrow> ('b, 'sp, 'x) VecEnvBase \<Rightarrow> ('b, 'x) outside
     \<Rightarrow> (exn + int) \<times> ('b, 'sp, 'x) VecEnvBase \<times> ('b, 'x) outside" where
  "seed h value self out =
     (case invoke (Set_seed value) (set_seed h value) out of (r, out1) \<Rightarrow> (r, self, out1))"

text \<open>
  \<^verbatim>\<open>step(self, actions)\<close>. The result is the tuple
  \<^verbatim>\<open>(observations, rewards, dones, info)\<close> with \<^verbatim>\<open>info = {}\<close>.
\<close>

definition step ::
  "('b, 'sp, 'x) host \<Rightarrow> 'b \<Rightarrow> ('b, 'sp, 'x) VecEnvBase \<Rightarrow> ('b, 'x) outside
     \<Rightarrow> (exn + 'b \<times> 'b \<times> 'b \<times> pydict) \<times> ('b, 'sp, 'x) VecEnvBase \<times> ('b, 'x) outside" where
  "step h actions self out =
     (case p_task self of
        None \<Rightarrow> (Inl (AttributeError ''_task''), self, out)
      | Some t \<Rightarrow>
          (case invoke (Pre_physics_step actions) (pre_physics_step t actions) out of
             (Inl e, out1) \<Rightarrow> (Inl e, self, out1)
           | (Inr u, out1) \<Rightarrow>
               (case p_world self of
                  None \<Rightarrow> (Inl (AttributeError ''_world''), self, out1)
                | Some w \<Rightarrow>
                    (case invoke (World_step w (p_render self))
                                 (world_step h w (p_render self)) out1 of
                       (Inl e, out2) \<Rightarrow> (Inl e, self, out2)
                     | (Inr u', out2) \<Rightarrow>
                         (let self' = self\<lparr>sim_frame_count := sim_frame_count self + 1\<rparr>
                          in (case invoke Get_observations (get_observations t) out2 of
                                (Inl e, out3) \<Rightarrow> (Inl e, self', out3)
                              | (Inr observations, out3) \<Rightarrow>
                                  (case invoke Calculate_metrics (calculate_metrics t) out3 of
                                     (Inl e, out4) \<Rightarrow> (Inl e, self', out4)
                                   | (Inr rewards, out4) \<Rightarrow>
                                       (case invoke Is_done (is_done t) out4 of
                                          (Inl e, out5) \<Rightarrow> (Inl e, self', out5)
                                        | (Inr dones, out5) \<Rightarrow>
                                            (Inr (observations, rewards, dones, []),
                                             self', out5)))))))))"

text \<open>\<^verbatim>\<open>reset(self)\<close>: the result is the observations alone.\<close>

definition reset ::
  "('b, 'sp, 'x) host \<Rightarrow> ('b, 'sp, 'x) VecEnvBase \<Rightarrow> ('b, 'x) outside
     \<Rightarrow> (exn + 'b) \<times> ('b, 'sp, 'x) VecEnvBase \<times> ('b, 'x) outside" where
  "reset h self out =
     (case p_task self of
        None \<Rightarrow> (Inl (AttributeError ''_task''), self, out)
      | Some t \<Rightarrow>
          (case invoke Task_reset (t_reset t) out of
             (Inl e, out1) \<Rightarrow> (Inl e, self, out1)
           | (Inr u, out1) \<Rightarrow>
               (case p_world self of
                  None \<Rightarrow> (Inl (AttributeError ''_world''), self, out1)
                | Some w \<Rightarrow>
                    (case invoke (World_step w (p_render self))
                                 (world_step h w (p_render self)) out1 of
                       (Inl e, out2) \<Rightarrow> (Inl e, self, out2)
                     | (Inr u', out2) \<Rightarrow>
                         (case invoke Get_observations (get_observations t) out2 of
                            (r, out3) \<Rightarrow> (r, self, out3))))))"

text \<open>The property \<^verbatim>\<open>num_envs\<close>.\<close>

definition num_envs :: "('b, 'sp, 'x) VecEnvBase \<Rightarrow> exn + int" where
  "num_envs self =
     (case p_num_envs self of None \<Rightarrow> Inl (AttributeError ''_num_envs'') | Some n \<Rightarrow> Inr n)"

text \<open>
  Modelled from the spec: the seeding utility \<^verbatim>\<open>set_seed\<close> of
  \<^verbatim>\<open>omni.isaac.core.utils.torch.maths\<close>, which is imported by \<^verbatim>\<open>seed\<close> and is not
  in the source tree. The spec: "if \<^verbatim>\<open>value\<close> is -1, requests a random seed from an
  external seeding utility; otherwise forwards \<^verbatim>\<open>value\<close> verbatim; returns whatever seed
  was actually applied. No validation of \<^verbatim>\<open>value\<close>'s range." The random draw is the
  parameter \<open>random_seed\<close>, a function of the outside state.
\<close>

definition set_seed_spec :: "('x \<Rightarrow> int \<times> 'x) \<Rightarrow> int \<Rightarrow> (int, 'x) extcall" where
  "set_seed_spec random_seed value x =
     (if value = - 1 then (case random_seed x of (s, x') \<Rightarrow> (Inr s, x')) else (Inr value, x))"


text \<open>
  Modelled from the spec: the base-class method \<^verbatim>\<open>gym.Env.render\<close>, which \<^verbatim>\<open>render\<close>
  calls for every mode other than \<^verbatim>\<open>"human"\<close> and which is not in the source tree. The
  spec: "delegates to the standard environment base-class rendering behavior (which by
  contract does nothing useful unless overridden, effectively a no-op for unsupported
  modes)". The method returns \<^verbatim>\<open>None\<close> and leaves the outside state as it is.
\<close>

definition gym_Env_render_spec :: "string \<Rightarrow> (unit, 'x) extcall" where
  "gym_Env_render_spec mode x = (Inr (), x)"


section \<open>Callers\<close>

text \<open>
  A caller invokes methods of one adapter one after another and goes on after an
  exception; \<open>run\<close> gives the adapter and the outside state it ends with.
\<close>

datatype ('b, 'sp, 'x) request =
    Call_set_task "('b, 'sp, 'x) task" string "pydict option" bool
  | Call_render string
  | Call_close
  | Call_seed int
  | Call_step 'b
  | Call_reset

definition call ::
  "('b, 'sp, 'x) host \<Rightarrow> ('b, 'sp, 'x) request \<Rightarrow> ('b, 'sp, 'x) VecEnvBase \<Rightarrow> ('b, 'x) outside
     \<Rightarrow> ('b, 'sp, 'x) VecEnvBase \<times> ('b, 'x) outside" where
  "call h m self out =
     (case m of
        Call_set_task task backend sim_params init_sim \<Rightarrow>
          snd (set_task h task backend sim_params init_sim self out)
      | Call_render mode \<Rightarrow> snd (render h mode self out)
      | Call_close \<Rightarrow> snd (close h self out)
      | Call_seed value \<Rightarrow> snd (seed h value self out)
      | Call_step actions \<Rightarrow> snd (step h actions self out)
      | Call_reset \<Rightarrow> snd (reset h self out))"

fun run ::
  "('b, 'sp, 'x) host \<Rightarrow> ('b, 'sp, 'x) request list \<Rightarrow> ('b, 'sp, 'x) VecEnvBase
     \<Rightarrow> ('b, 'x) outside \<Rightarrow> ('b, 'sp, 'x) VecEnvBase \<times> ('b, 'x) outside" where
  "run h [] self out = (self, out)"
| "run h (m # ms) self out = (case call h m self out of (self', out') \<Rightarrow> run h ms self' out')"


section \<open>A mock task and a mock host\<close>

text \<open>
  A task and a host to run the adapter on. The outside state is one integer, the
  simulated position; buffers are lists of integers. The task refuses an empty action
  buffer, and the mock of \<^verbatim>\<open>gym.Env.render\<close> raises.
\<close>

definition mock_task :: "(int list, nat, int) task" where
  "mock_task =
     \<lparr>t_num_envs = 4, t_observation_space = 3, t_action_space = 2,
      pre_physics_step =
        (\<lambda>a x. if a = [] then (Inl (HostError ''empty actions''), x)
                else (Inr (), x + sum_list a)),
      get_observations = (\<lambda>x. (Inr [x], x)),
      calculate_metrics = (\<lambda>x. (Inr [2 * x], x)),
      is_done = (\<lambda>x. (Inr [if 100 < x then 1 else 0], x)),
      t_reset = (\<lambda>x. (Inr (), 0))\<rparr>"

definition mock_host :: "(int list, nat, int) host" where
  "mock_host =
     \<lparr>SimulationApp = (\<lambda>headless sim_device experience x. (Inr 7, x)),
      simulation_app_close = (\<lambda>app x. (Inr (), x)),
      settings_set = (\<lambda>k v x. (Inr (), x)),
      World = (\<lambda>args x. (Inr 1, x)),
      world_add_task = (\<lambda>w t x. (Inr (), x)),
      world_reset = (\<lambda>w x. (Inr (), x)),
      world_step = (\<lambda>w r x. (Inr (), x + 1)),
      world_render = (\<lambda>w x. (Inr (), x)),
      gym_Env_render = (\<lambda>mode x. (Inl (HostError ''NotImplementedError''), x)),
      set_extension_enabled_immediate = (\<lambda>name v x. (Inr (), x)),
      root_layer_clear = (\<lambda>x. (Inr (), x)),
      set_seed = (\<lambda>value x. (Inr value, x))\<rparr>"

text \<open>The mock host with the seeding utility of the spec; its random draw reads the position.\<close>

definition mock_seeding_host :: "(int list, nat, int) host" where
  "mock_seeding_host = mock_host\<lparr>set_seed := set_seed_spec (\<lambda>x. (x mod 10000, x + 1))\<rparr>"

text \<open>The mock host with the base-class \<^verbatim>\<open>render\<close> of the spec.\<close>

definition mock_gym_host :: "(int list, nat, int) host" where
  "mock_gym_host = mock_host\<lparr>gym_Env_render := gym_Env_render_spec\<rparr>"

text \<open>
  A mock host whose \<^verbatim>\<open>World\<close> looks at its arguments and moves the outside state: the
  world built for the accelerated device with the torch backend gets handle 2, any other
  world handle 1.
\<close>

definition mock_world_host :: "(int list, nat, int) host" where
  "mock_world_host =
     mock_host\<lparr>World :=
       (\<lambda>args x. if world_device args = ''cuda'' \<and> world_backend args = ''torch'' \<and>
                     rendering_dt args = float_1_div_60 \<and> stage_units_in_meters args = 1
                  then (Inr 2, x + 10) else (Inr 1, x + 1))\<rparr>"

definition mock_env :: "(int list, nat, int) VecEnvBase" where
  "mock_env =
     \<lparr>p_simulation_app = 7, p_render = True, sim_frame_count = 0, p_world = Some 1,
      p_task = Some mock_task, p_num_envs = Some 4, observation_space = Some 3,
      action_space = Some 2\<rparr>"

definition mock_out :: "(int list, int) outside" where
  "mock_out = \<lparr>ext = 0, calls = []\<rparr>"

definition mock_unbound :: "(int list, nat, int) VecEnvBase" where
  "mock_unbound =
     \<lparr>p_simulation_app = 7, p_render = True, sim_frame_count = 0, p_world = None,
      p_task = None, p_num_envs = None, observation_space = None, action_space = None\<rparr>"


section \<open>Calls to collaborators\<close>

lemma invoke_eq:
  "invoke c f out = (fst (f (ext out)), \<lparr>ext = snd (f (ext out)), calls = calls out @ [c]\<rparr>)"
  by (simp add: invoke_def split: prod.split)


section \<open>The contract of \<^verbatim>\<open>step\<close>\<close>

text \<open>
  Claim C1. On a bound adapter whose collaborators return, \<^verbatim>\<open>step(actions)\<close> passes
  \<open>actions\<close> to the task's \<^verbatim>\<open>pre_physics_step\<close>, steps the world once with
  \<^verbatim>\<open>render\<close> equal to the adapter's render flag, adds exactly 1 to the frame counter,
  asks the task for observations, rewards and dones in this order, and returns the tuple
  of the three answers and the empty dictionary. The adapter never inspects \<open>actions\<close>:
  the statement holds for every value of it.
\<close>

theorem step_returns_tuple:
  assumes "p_task self = Some t" and "p_world self = Some w"
    and "pre_physics_step t actions (ext out) = (Inr u1, x1)"
    and "world_step h w (p_render self) x1 = (Inr u2, x2)"
    and "get_observations t x2 = (Inr observations, x3)"
    and "calculate_metrics t x3 = (Inr rewards, x4)"
    and "is_done t x4 = (Inr dones, x5)"
  shows "step h actions self out =
           (Inr (observations, rewards, dones, []),
            self\<lparr>sim_frame_count := sim_frame_count self + 1\<rparr>,
            \<lparr>ext = x5,
             calls = calls out @ [Pre_physics_step actions, World_step w (p_render self),
                                  Get_observations, Calculate_metrics, Is_done]\<rparr>)"
  using assms by (simp add: step_def invoke_def)

theorem step_returns_tuple_witness:
  "step mock_host [1, 2] mock_env mock_out =
     (Inr ([4], [8], [0], []), mock_env\<lparr>sim_frame_count := 1\<rparr>,
      \<lparr>ext = 4, calls = [Pre_physics_step [1, 2], World_step 1 True, Get_observations,
                         Calculate_metrics, Is_done]\<rparr>)"
  using step_returns_tuple [of mock_env mock_task 1 "[1, 2]" mock_out "()" 3 mock_host "()" 4
                               "[4]" 4 "[8]" 4 "[0]" 4]
  by (simp add: mock_env_def mock_task_def mock_host_def mock_out_def)


section \<open>What each method does to the adapter's attributes\<close>

lemma render_self: "fst (snd (render h mode self out)) = self"
  by (simp add: render_def split: option.split prod.split)

lemma close_self: "fst (snd (close h self out)) = self"
  by (simp add: close_def split: prod.split sum.split)

lemma seed_self: "fst (snd (seed h v self out)) = self"
  by (simp add: seed_def split: prod.split)

lemma reset_self: "fst (snd (reset h self out)) = self"
  by (simp add: reset_def split: option.split prod.split sum.split)

lemma set_task_frame_count:
  "sim_frame_count (fst (snd (set_task h task backend sim_params init_sim self out))) =
     sim_frame_count self"
  by (simp add: set_task_def Let_def split: option.split prod.split sum.split)

lemma step_frame_count_cases:
  "fst (snd (step h actions self out)) = self \<or>
   fst (snd (step h actions self out)) = self\<lparr>sim_frame_count := sim_frame_count self + 1\<rparr>"
  by (simp add: step_def Let_def split: option.split prod.split sum.split)

lemma step_frame_count_returned:
  "fst (step h actions self out) = Inr r \<Longrightarrow>
     fst (snd (step h actions self out)) = self\<lparr>sim_frame_count := sim_frame_count self + 1\<rparr>"
  by (simp add: step_def Let_def split: option.splits prod.splits sum.splits)

lemma step_frame_count_mono:
  "sim_frame_count self \<le> sim_frame_count (fst (snd (step h actions self out)))"
  using step_frame_count_cases [of h actions self out] by auto

lemma call_frame_count_mono:
  "sim_frame_count self \<le> sim_frame_count (fst (call h m self out))"
  by (cases m)
     (simp_all add: call_def set_task_frame_count render_self close_self seed_self
        reset_self step_frame_count_mono)

lemma run_frame_count_mono:
  "sim_frame_count self \<le> sim_frame_count (fst (run h ms self out))"
proof (induction ms arbitrary: self out)
  case Nil
  show ?case by simp
next
  case (Cons m ms)
  obtain self' out' where c: "call h m self out = (self', out')"
    by (cases "call h m self out")
  have "sim_frame_count self \<le> sim_frame_count self'"
    using call_frame_count_mono [of self h m out] c by simp
  also have "\<dots> \<le> sim_frame_count (fst (run h ms self' out'))"
    by (rule Cons.IH)
  finally show ?case using c by simp
qed

lemma select_device_eq:
  "select_device sim_params =
     Inr (if (\<exists>d v. sim_params = Some d \<and> map_of d ''use_gpu_pipeline'' = Some v \<and> truthy v)
          then ''cuda'' else ''cpu'')"
  by (auto simp: select_device_def params_truthy_def params_contains_def params_getitem_def
        split: option.splits)


section \<open>The contract of \<^verbatim>\<open>reset\<close>\<close>

text \<open>
  Claim C2. On a bound adapter whose collaborators return, \<^verbatim>\<open>reset()\<close> calls the
  task's reset hook exactly once, steps the world exactly once with \<^verbatim>\<open>render\<close>
  equal to the adapter's render flag, and returns the task's observations and nothing
  else: the result is one buffer, with no done flags and no info dictionary beside it.
\<close>

theorem reset_returns_observations:
  assumes "p_task self = Some t" and "p_world self = Some w"
    and "t_reset t (ext out) = (Inr u1, x1)"
    and "world_step h w (p_render self) x1 = (Inr u2, x2)"
    and "get_observations t x2 = (Inr observations, x3)"
  shows "reset h self out =
           (Inr observations, self,
            \<lparr>ext = x3,
             calls = calls out @ [Task_reset, World_step w (p_render self), Get_observations]\<rparr>)
         \<and> count_list (calls (snd (snd (reset h self out)))) Task_reset =
             count_list (calls out) Task_reset + 1
         \<and> length (filter (\<lambda>c. \<exists>w' r. c = World_step w' r) (calls (snd (snd (reset h self out))))) =
             length (filter (\<lambda>c. \<exists>w' r. c = World_step w' r) (calls out)) + 1"
  using assms by (simp add: reset_def invoke_def)

theorem reset_returns_observations_witness:
  "reset mock_host mock_env mock_out =
     (Inr [1], mock_env,
      \<lparr>ext = 1, calls = [Task_reset, World_step 1 True, Get_observations]\<rparr>)"
  using reset_returns_observations [of mock_env mock_task 1 mock_out "()" 0 mock_host "()" 1
                                       "[1]" 1]
  by (simp add: mock_env_def mock_task_def mock_host_def mock_out_def)


section \<open>Binding a task\<close>

text \<open>
  Claim C3. When \<^verbatim>\<open>set_task(task, backend, sim_params, init_sim)\<close> has returned, the
  property \<^verbatim>\<open>num_envs\<close> of the adapter gives the task's \<^verbatim>\<open>num_envs\<close>, which the
  adapter has cached in \<^verbatim>\<open>_num_envs\<close>, and \<^verbatim>\<open>observation_space\<close> and
  \<^verbatim>\<open>action_space\<close> are the task's.
\<close>

theorem set_task_copies_declared_values:
  assumes "fst (set_task h task backend sim_params init_sim self out) = Inr u"
  shows "num_envs (fst (snd (set_task h task backend sim_params init_sim self out))) =
           Inr (t_num_envs task)
         \<and> p_num_envs (fst (snd (set_task h task backend sim_params init_sim self out))) =
             Some (t_num_envs task)
         \<and> observation_space (fst (snd (set_task h task backend sim_params init_sim self out))) =
             Some (t_observation_space task)
         \<and> action_space (fst (snd (set_task h task backend sim_params init_sim self out))) =
             Some (t_action_space task)
         \<and> p_task (fst (snd (set_task h task backend sim_params init_sim self out))) = Some task"
  using assms
  by (auto simp: set_task_def num_envs_def Let_def
        split: option.splits prod.splits sum.splits if_splits)

theorem set_task_copies_declared_values_witness:
  "fst (set_task mock_host mock_task ''numpy'' None True mock_unbound mock_out) = Inr ()
   \<and> num_envs (fst (snd (set_task mock_host mock_task ''numpy'' None True mock_unbound mock_out))) = Inr 4
   \<and> observation_space (fst (snd (set_task mock_host mock_task ''numpy'' None True mock_unbound mock_out))) = Some 3
   \<and> action_space (fst (snd (set_task mock_host mock_task ''numpy'' None True mock_unbound mock_out))) = Some 2"
proof -
  have r: "fst (set_task mock_host mock_task ''numpy'' None True mock_unbound mock_out) = Inr ()"
    by (simp add: set_task_def select_device_def disable_viewport_def params_truthy_def
          invoke_def mock_host_def mock_out_def mock_unbound_def)
  show ?thesis
    using r set_task_copies_declared_values [OF r] by (simp add: mock_task_def)
qed


section \<open>The frame counter\<close>

text \<open>
  Claim C4. The frame counter \<^verbatim>\<open>sim_frame_count\<close> is 0 in the adapter that the
  constructor returns; no sequence of method calls on the adapter makes it smaller; a
  call to \<^verbatim>\<open>step\<close> that returns adds exactly 1 to it, and one that raises adds 0 or 1;
  \<^verbatim>\<open>reset\<close> leaves it as it is, whether it returns or raises. So the counter is 0
  again only in a newly constructed adapter.
\<close>

theorem sim_frame_count_monotone:
  "(init h environ headless sim_device out = (Inr self0, out0) \<longrightarrow> sim_frame_count self0 = 0)
   \<and> sim_frame_count self \<le> sim_frame_count (fst (run h ms self out))
   \<and> (fst (step h actions self out) = Inr r \<longrightarrow>
        sim_frame_count (fst (snd (step h actions self out))) = sim_frame_count self + 1)
   \<and> sim_frame_count self \<le> sim_frame_count (fst (snd (step h actions self out)))
   \<and> sim_frame_count (fst (snd (step h actions self out))) \<le> sim_frame_count self + 1
   \<and> sim_frame_count (fst (snd (reset h self out))) = sim_frame_count self"
proof -
  have a: "init h environ headless sim_device out = (Inr self0, out0) \<longrightarrow>
             sim_frame_count self0 = 0"
    by (auto simp: init_def split: if_splits option.splits prod.splits sum.splits)
  have b: "fst (step h actions self out) = Inr r \<longrightarrow>
             sim_frame_count (fst (snd (step h actions self out))) = sim_frame_count self + 1"
    using step_frame_count_returned [of h actions self out r] by auto
  have c: "sim_frame_count (fst (snd (step h actions self out))) \<le> sim_frame_count self + 1"
    using step_frame_count_cases [of h actions self out] by auto
  show ?thesis
    using a b c run_frame_count_mono [of self h ms out]
      step_frame_count_mono [of self h actions out] reset_self [of h self out]
    by simp
qed

theorem sim_frame_count_monotone_witness:
  "init mock_host Map.empty False 0 mock_out =
     (Inr mock_unbound,
      \<lparr>ext = 0, calls = [SimulationApp_init False 0 [],
                         Settings_set ''/persistent/omnihydra/useSceneGraphInstancing'' True]\<rparr>)
   \<and> sim_frame_count mock_unbound = 0
   \<and> sim_frame_count (fst (run mock_host
        [Call_step [1], Call_reset, Call_step [], Call_render ''human'', Call_step [2]]
        mock_env mock_out)) = 2
   \<and> fst (step mock_host [1, 2] mock_env mock_out) = Inr ([4], [8], [0], [])
   \<and> sim_frame_count (fst (snd (step mock_host [1, 2] mock_env mock_out))) = 1
   \<and> sim_frame_count (fst (snd (reset mock_host (mock_env\<lparr>sim_frame_count := 5\<rparr>) mock_out))) = 5"
proof -
  have i: "init mock_host Map.empty False 0 mock_out =
     (Inr mock_unbound,
      \<lparr>ext = 0, calls = [SimulationApp_init False 0 [],
                         Settings_set ''/persistent/omnihydra/useSceneGraphInstancing'' True]\<rparr>)"
    by (simp add: init_def invoke_def mock_host_def mock_out_def mock_unbound_def)
  have s: "fst (step mock_host [1, 2] mock_env mock_out) = Inr ([4], [8], [0], [])"
    by (simp add: step_def invoke_def mock_env_def mock_task_def mock_host_def mock_out_def)
  have r: "sim_frame_count (fst (run mock_host
        [Call_step [1], Call_reset, Call_step [], Call_render ''human'', Call_step [2]]
        mock_env mock_out)) = 2"
    by (simp add: call_def step_def reset_def render_def invoke_def mock_env_def
          mock_task_def mock_host_def mock_out_def)
  show ?thesis
    using i s r
      sim_frame_count_monotone [of mock_host Map.empty False 0 mock_out mock_unbound
        "\<lparr>ext = 0, calls = [SimulationApp_init False 0 [],
                         Settings_set ''/persistent/omnihydra/useSceneGraphInstancing'' True]\<rparr>"
        mock_env "[]" "[1, 2]" "([4], [8], [0], [])"]
      sim_frame_count_monotone [of mock_host Map.empty False 0 mock_out mock_unbound
        "\<lparr>ext = 0, calls = []\<rparr>" "mock_env\<lparr>sim_frame_count := 5\<rparr>" "[]" "[1, 2]"
        "([4], [8], [0], [])"]
    by (simp add: mock_env_def mock_unbound_def)
qed


section \<open>The world that \<^verbatim>\<open>set_task\<close> constructs\<close>

lemma invoke_calls: "invoke c f out = (r, out') \<Longrightarrow> calls out' = calls out @ [c]"
  by (auto simp: invoke_def split: prod.splits)

lemma disable_viewport_calls:
  "disable_viewport h sim_params out = (r, out') \<Longrightarrow> \<exists>ys. calls out' = calls out @ ys"
  by (auto simp: disable_viewport_def invoke_def split: sum.splits prod.splits if_splits)

lemma set_task_constructs_world_first:
  assumes d: "select_device sim_params = Inr device"
  shows "\<exists>rest.
           calls (snd (snd (set_task h task backend sim_params init_sim self out))) =
             calls out @
             World_init
               \<lparr>stage_units_in_meters = 1, rendering_dt = float_1_div_60, world_backend = backend,
                world_sim_params = sim_params, world_device = device\<rparr> # rest"
proof -
  let ?a = "\<lparr>stage_units_in_meters = 1, rendering_dt = float_1_div_60, world_backend = backend,
             world_sim_params = sim_params, world_device = device\<rparr>"
  obtain r1 o1 where i1: "invoke (World_init ?a) (World h ?a) out = (r1, o1)"
    by (cases "invoke (World_init ?a) (World h ?a) out")
  have c1: "calls o1 = calls out @ [World_init ?a]"
    using invoke_calls [OF i1] .
  show ?thesis
  proof (cases r1)
    case (Inl e)
    then show ?thesis using d i1 c1 by (simp add: set_task_def)
  next
    case w: (Inr w)
    obtain r2 o2 where i2: "invoke (World_add_task w) (world_add_task h w task) o1 = (r2, o2)"
      by (cases "invoke (World_add_task w) (world_add_task h w task) o1")
    have c2: "calls o2 = calls out @ [World_init ?a, World_add_task w]"
      using invoke_calls [OF i2] c1 by simp
    show ?thesis
    proof (cases r2)
      case (Inl e)
      then show ?thesis using d i1 w i2 c2 by (simp add: set_task_def)
    next
      case u: (Inr u)
      obtain r3 o3 where i3: "disable_viewport h sim_params o2 = (r3, o3)"
        by (cases "disable_viewport h sim_params o2")
      obtain ys where c3: "calls o3 = calls out @ [World_init ?a, World_add_task w] @ ys"
        using disable_viewport_calls [OF i3] c2 by auto
      show ?thesis
      proof (cases r3)
        case (Inl e)
        then show ?thesis using d i1 w i2 u i3 c3 by (simp add: set_task_def)
      next
        case v: (Inr v)
        show ?thesis
        proof (cases init_sim)
          case False
          then show ?thesis using d i1 w i2 u i3 v c3 by (simp add: set_task_def)
        next
          case True
          obtain r4 o4 where i4: "invoke (World_reset w) (world_reset h w) o3 = (r4, o4)"
            by (cases "invoke (World_reset w) (world_reset h w) o3")
          have c4: "calls o4 = calls out @ [World_init ?a, World_add_task w] @ ys @ [World_reset w]"
            using invoke_calls [OF i4] c3 by simp
          show ?thesis using d i1 w i2 u i3 v True i4 c4 by (simp add: set_task_def)
        qed
      qed
    qed
  qed
qed

text \<open>
  Claim C5. For every \<^verbatim>\<open>sim_params\<close>, \<^verbatim>\<open>set_task\<close> selects the device
  \<^verbatim>\<open>"cuda"\<close> if \<^verbatim>\<open>sim_params\<close> is a dictionary that binds \<^verbatim>\<open>use_gpu_pipeline\<close> to a
  true value and \<^verbatim>\<open>"cpu"\<close> in every other case (\<^verbatim>\<open>sim_params\<close> is \<^verbatim>\<open>None\<close>, the key
  is missing, or its value is false). It then constructs the world: the host's
  \<^verbatim>\<open>World\<close> is run, on the outside state as \<^verbatim>\<open>set_task\<close> found it, with
  \<^verbatim>\<open>rendering_dt\<close> the double \<^verbatim>\<open>1.0 / 60.0\<close> (1/60 to within half a unit in the last
  place), the backend that was given, \<^verbatim>\<open>sim_params\<close> and the selected device. If
  \<^verbatim>\<open>World\<close> raises, \<^verbatim>\<open>set_task\<close> raises the same exception and the adapter is as it
  was; if it returns a world, that world becomes the adapter's \<^verbatim>\<open>_world\<close>, the task is
  added to it on the outside state \<^verbatim>\<open>World\<close> left, and \<^verbatim>\<open>set_task\<close> goes on from
  there.
\<close>

theorem set_task_selects_device:
  assumes "device = (if (\<exists>d v. sim_params = Some d \<and> map_of d ''use_gpu_pipeline'' = Some v \<and>
                                 truthy v)
                     then ''cuda'' else ''cpu'')"
    and "args = \<lparr>stage_units_in_meters = 1, rendering_dt = float_1_div_60,
                  world_backend = backend, world_sim_params = sim_params,
                  world_device = device\<rparr>"
    and "bound = self\<lparr>p_world := Some w, p_task := Some task,
                        p_num_envs := Some (t_num_envs task),
                        observation_space := Some (t_observation_space task),
                        action_space := Some (t_action_space task)\<rparr>"
  shows "select_device sim_params = Inr device
    \<and> rendering_dt args * 2 ^ 58 = 4803839602528529
    \<and> \<bar>rendering_dt args - 1 / 60\<bar> < 1 / 2 ^ 59
    \<and> (World h args (ext out) = (Inl e, xa) \<longrightarrow>
         set_task h task backend sim_params init_sim self out =
           (Inl e, self, \<lparr>ext = xa, calls = calls out @ [World_init args]\<rparr>))
    \<and> (World h args (ext out) = (Inr w, xa) \<longrightarrow>
         world_add_task h w task xa = (Inl e, xb) \<longrightarrow>
         set_task h task backend sim_params init_sim self out =
           (Inl e, self\<lparr>p_world := Some w\<rparr>,
            \<lparr>ext = xb, calls = calls out @ [World_init args, World_add_task w]\<rparr>))
    \<and> (World h args (ext out) = (Inr w, xa) \<longrightarrow>
         world_add_task h w task xa = (Inr u, xb) \<longrightarrow>
         disable_viewport h sim_params
           \<lparr>ext = xb, calls = calls out @ [World_init args, World_add_task w]\<rparr> = (Inl e, outv) \<longrightarrow>
         set_task h task backend sim_params init_sim self out = (Inl e, bound, outv))
    \<and> (World h args (ext out) = (Inr w, xa) \<longrightarrow>
         world_add_task h w task xa = (Inr u, xb) \<longrightarrow>
         disable_viewport h sim_params
           \<lparr>ext = xb, calls = calls out @ [World_init args, World_add_task w]\<rparr> = (Inr u', outv) \<longrightarrow>
         set_task h task backend sim_params init_sim self out =
           (if init_sim
            then (fst (world_reset h w (ext outv)), bound,
                  \<lparr>ext = snd (world_reset h w (ext outv)),
                   calls = calls outv @ [World_reset w]\<rparr>)
            else (Inr (), bound, outv)))
    \<and> (\<exists>rest. calls (snd (snd (set_task h task backend sim_params init_sim self out))) =
                 calls out @ World_init args # rest)"
proof -
  have d: "select_device sim_params = Inr device"
    unfolding assms(1) by (rule select_device_eq)
  have f1: "rendering_dt args * 2 ^ 58 = 4803839602528529"
    unfolding assms(2) by (simp add: float_1_div_60_def)
  have f2: "\<bar>rendering_dt args - 1 / 60\<bar> < 1 / 2 ^ 59"
    unfolding assms(2) by (simp add: float_1_div_60_def)
  have a: "World h args (ext out) = (Inl e, xa) \<longrightarrow>
         set_task h task backend sim_params init_sim self out =
           (Inl e, self, \<lparr>ext = xa, calls = calls out @ [World_init args]\<rparr>)"
    unfolding assms(2) by (simp add: set_task_def d invoke_def)
  have b: "World h args (ext out) = (Inr w, xa) \<longrightarrow>
         world_add_task h w task xa = (Inl e, xb) \<longrightarrow>
         set_task h task backend sim_params init_sim self out =
           (Inl e, self\<lparr>p_world := Some w\<rparr>,
            \<lparr>ext = xb, calls = calls out @ [World_init args, World_add_task w]\<rparr>)"
    unfolding assms(2) by (simp add: set_task_def d invoke_def)
  have c: "World h args (ext out) = (Inr w, xa) \<longrightarrow>
         world_add_task h w task xa = (Inr u, xb) \<longrightarrow>
         disable_viewport h sim_params
           \<lparr>ext = xb, calls = calls out @ [World_init args, World_add_task w]\<rparr> = (Inl e, outv) \<longrightarrow>
         set_task h task backend sim_params init_sim self out = (Inl e, bound, outv)"
    unfolding assms(2) assms(3) by (simp add: set_task_def d invoke_def)
  have r: "World h args (ext out) = (Inr w, xa) \<longrightarrow>
         world_add_task h w task xa = (Inr u, xb) \<longrightarrow>
         disable_viewport h sim_params
           \<lparr>ext = xb, calls = calls out @ [World_init args, World_add_task w]\<rparr> = (Inr u', outv) \<longrightarrow>
         set_task h task backend sim_params init_sim self out =
           (if init_sim
            then (fst (world_reset h w (ext outv)), bound,
                  \<lparr>ext = snd (world_reset h w (ext outv)),
                   calls = calls outv @ [World_reset w]\<rparr>)
            else (Inr (), bound, outv))"
    unfolding assms(2) assms(3) by (simp add: set_task_def d invoke_eq)
  have l: "\<exists>rest. calls (snd (snd (set_task h task backend sim_params init_sim self out))) =
                 calls out @ World_init args # rest"
    unfolding assms(2) by (rule set_task_constructs_world_first [OF d])
  from d f1 f2 a b c r l show ?thesis by blast
qed

theorem set_task_selects_device_witness:
  "set_task mock_world_host mock_task ''torch'' (Some [(''use_gpu_pipeline'', PyBool True)])
     True mock_unbound mock_out =
     (Inr (),
      mock_unbound\<lparr>p_world := Some 2, p_task := Some mock_task, p_num_envs := Some 4,
                    observation_space := Some 3, action_space := Some 2\<rparr>,
      \<lparr>ext = 10,
       calls = [World_init \<lparr>stage_units_in_meters = 1, rendering_dt = float_1_div_60,
                            world_backend = ''torch'',
                            world_sim_params = Some [(''use_gpu_pipeline'', PyBool True)],
                            world_device = ''cuda''\<rparr>,
                World_add_task 2, World_reset 2]\<rparr>)
   \<and> select_device (Some [(''use_gpu_pipeline'', PyBool True)]) = Inr ''cuda''
   \<and> select_device (Some [(''use_gpu_pipeline'', PyInt 0)]) = Inr ''cpu''
   \<and> select_device (Some [(''enable_viewport'', PyBool True)]) = Inr ''cpu''
   \<and> select_device None = Inr ''cpu''"
proof -
  let ?p = "Some [(''use_gpu_pipeline'', PyBool True)]"
  let ?a = "\<lparr>stage_units_in_meters = 1, rendering_dt = float_1_div_60,
             world_backend = ''torch'', world_sim_params = ?p, world_device = ''cuda''\<rparr>"
  let ?b = "mock_unbound\<lparr>p_world := Some 2, p_task := Some mock_task,
              p_num_envs := Some (t_num_envs mock_task),
              observation_space := Some (t_observation_space mock_task),
              action_space := Some (t_action_space mock_task)\<rparr>"
  let ?o = "\<lparr>ext = 10, calls = calls mock_out @ [World_init ?a, World_add_task 2]\<rparr>"
  have dv: "''cuda'' = (if (\<exists>d v. ?p = Some d \<and> map_of d ''use_gpu_pipeline'' = Some v \<and>
                                 truthy v) then ''cuda'' else ''cpu'')"
    by simp
  have w: "World mock_world_host ?a (ext mock_out) = (Inr 2, 10)"
    by (simp add: mock_world_host_def mock_out_def)
  have t: "world_add_task mock_world_host 2 mock_task 10 = (Inr (), 10)"
    by (simp add: mock_world_host_def mock_host_def)
  have v: "disable_viewport mock_world_host ?p ?o = (Inr (), ?o)"
    by (simp add: disable_viewport_def params_truthy_def params_contains_def)
  have s: "set_task mock_world_host mock_task ''torch'' ?p True mock_unbound mock_out =
             (fst (world_reset mock_world_host 2 (ext ?o)), ?b,
              \<lparr>ext = snd (world_reset mock_world_host 2 (ext ?o)),
               calls = calls ?o @ [World_reset 2]\<rparr>)"
    using w t v
      set_task_selects_device [where sim_params = ?p and device = "''cuda''" and args = ?a
        and bound = ?b and self = mock_unbound and w = 2 and task = mock_task
        and h = mock_world_host and out = mock_out and xa = 10 and xb = 10 and u = "()"
        and u' = "()" and outv = ?o and init_sim = True and backend = "''torch''"
        and e = "HostError []", OF dv refl refl]
    by simp
  have g: "select_device ?p = Inr ''cuda''"
    by (rule set_task_selects_device [OF dv refl refl, THEN conjunct1])
  have z: "select_device (Some [(''use_gpu_pipeline'', PyInt 0)]) = Inr ''cpu''"
    using set_task_selects_device [where sim_params = "Some [(''use_gpu_pipeline'', PyInt 0)]",
        OF refl refl refl, THEN conjunct1]
    by simp
  have e: "select_device (Some [(''enable_viewport'', PyBool True)]) = Inr ''cpu''"
    using set_task_selects_device [where sim_params = "Some [(''enable_viewport'', PyBool True)]",
        OF refl refl refl, THEN conjunct1]
    by simp
  have n: "select_device None = Inr ''cpu''"
    using set_task_selects_device [where sim_params = None, OF refl refl refl, THEN conjunct1]
    by simp
  show ?thesis
    using s g z e n
    by (simp add: mock_world_host_def mock_host_def mock_out_def mock_task_def)
qed


section \<open>Rendering\<close>

text \<open>
  Claim C6. On a bound adapter, \<^verbatim>\<open>render(mode)\<close> makes exactly one call to a
  collaborator: the world's \<^verbatim>\<open>render\<close> if \<open>mode\<close> is \<^verbatim>\<open>"human"\<close>, and
  \<^verbatim>\<open>gym.Env.render\<close> with the same \<open>mode\<close> if it is anything else. So the world's
  renderer is stepped if and only if \<open>mode\<close> is \<^verbatim>\<open>"human"\<close>. With any other mode the
  adapter adds nothing to what the base class does: outcome and outside state are those
  of \<^verbatim>\<open>gym.Env.render\<close>. With the base class as the spec describes it, the call is a
  no-op: \<^verbatim>\<open>render\<close> returns \<^verbatim>\<open>None\<close>, and neither the adapter nor the outside state
  changes.
\<close>

theorem render_dispatches_on_mode:
  "(mode = ''human'' \<longrightarrow> p_world self = Some w \<longrightarrow>
      render h mode self out =
        (fst (world_render h w (ext out)), self,
         \<lparr>ext = snd (world_render h w (ext out)), calls = calls out @ [World_render w]\<rparr>))
   \<and> (mode \<noteq> ''human'' \<longrightarrow>
      render h mode self out =
        (fst (gym_Env_render h mode (ext out)), self,
         \<lparr>ext = snd (gym_Env_render h mode (ext out)),
          calls = calls out @ [Gym_Env_render mode]\<rparr>))
   \<and> (p_world self = Some w \<longrightarrow>
        (World_render w \<in> set (drop (length (calls out))
                                  (calls (snd (snd (render h mode self out)))))
         \<longleftrightarrow> mode = ''human''))
   \<and> ((\<exists>w'. World_render w' \<in> set (drop (length (calls out))
                                        (calls (snd (snd (render h mode self out))))))
        \<longrightarrow> mode = ''human'')
   \<and> (gym_Env_render h = gym_Env_render_spec \<longrightarrow> mode \<noteq> ''human'' \<longrightarrow>
        render h mode self out =
          (Inr (), self, \<lparr>ext = ext out, calls = calls out @ [Gym_Env_render mode]\<rparr>))"
  by (simp add: render_def invoke_eq gym_Env_render_spec_def split: option.split)

theorem render_dispatches_on_mode_witness:
  "gym_Env_render mock_gym_host = gym_Env_render_spec
   \<and> render mock_gym_host ''human'' mock_env mock_out =
       (Inr (), mock_env, \<lparr>ext = 0, calls = [World_render 1]\<rparr>)
   \<and> render mock_gym_host ''rgb_array'' mock_env mock_out =
       (Inr (), mock_env, \<lparr>ext = 0, calls = [Gym_Env_render ''rgb_array'']\<rparr>)
   \<and> render mock_host ''rgb_array'' mock_env mock_out =
       (Inl (HostError ''NotImplementedError''), mock_env,
        \<lparr>ext = 0, calls = [Gym_Env_render ''rgb_array'']\<rparr>)"
proof -
  have g: "gym_Env_render mock_gym_host = gym_Env_render_spec"
    by (simp add: mock_gym_host_def)
  have w: "p_world mock_env = Some 1"
    by (simp add: mock_env_def)
  have m: "''rgb_array'' \<noteq> ''human''"
    by simp
  have a: "render mock_gym_host ''human'' mock_env mock_out =
             (fst (world_render mock_gym_host 1 (ext mock_out)), mock_env,
              \<lparr>ext = snd (world_render mock_gym_host 1 (ext mock_out)),
               calls = calls mock_out @ [World_render 1]\<rparr>)"
    using w render_dispatches_on_mode [of "''human''" mock_env 1 mock_gym_host mock_out]
    by blast
  have b: "render mock_gym_host ''rgb_array'' mock_env mock_out =
             (Inr (), mock_env,
              \<lparr>ext = ext mock_out, calls = calls mock_out @ [Gym_Env_render ''rgb_array'']\<rparr>)"
    using g m render_dispatches_on_mode [of "''rgb_array''" mock_env 1 mock_gym_host mock_out]
    by blast
  have c: "render mock_host ''rgb_array'' mock_env mock_out =
             (fst (gym_Env_render mock_host ''rgb_array'' (ext mock_out)), mock_env,
              \<lparr>ext = snd (gym_Env_render mock_host ''rgb_array'' (ext mock_out)),
               calls = calls mock_out @ [Gym_Env_render ''rgb_array'']\<rparr>)"
    using m render_dispatches_on_mode [of "''rgb_array''" mock_env 1 mock_host mock_out]
    by blast
  show ?thesis
    using g a b c by (simp add: mock_gym_host_def mock_host_def mock_out_def)
qed


section \<open>Construction\<close>

text \<open>
  Claim C7. Where the collaborators return, constructing the adapter with
  \<^verbatim>\<open>headless\<close> and \<^verbatim>\<open>sim_device\<close> launches the simulation application with these
  two values, sets the instancing flag, and gives an adapter whose render flag is the
  negation of \<^verbatim>\<open>headless\<close> and whose frame counter is 0. The environment variable
  \<^verbatim>\<open>EXP_PATH\<close> is read if and only if \<^verbatim>\<open>headless\<close> is true, to build the path
  of the headless start-up file; with \<^verbatim>\<open>headless\<close> false the environment has no
  influence on the construction.
\<close>

theorem init_records_render_flag:
  assumes "headless \<longrightarrow> environ ''EXP_PATH'' = Some p"
    and "experience = (if headless then p @ ''/omni.isaac.sim.python.gym.headless.kit'' else [])"
    and "SimulationApp h headless sim_device experience (ext out) = (Inr app, x1)"
    and "settings_set h ''/persistent/omnihydra/useSceneGraphInstancing'' True x1 = (Inr u, x2)"
  shows "init h environ headless sim_device out =
           (Inr \<lparr>p_simulation_app = app, p_render = (\<not> headless), sim_frame_count = 0,
                 p_world = None, p_task = None, p_num_envs = None, observation_space = None,
                 action_space = None\<rparr>,
            \<lparr>ext = x2,
             calls = calls out @ (if headless then [Environ_getitem ''EXP_PATH''] else []) @
                     [SimulationApp_init headless sim_device experience,
                      Settings_set ''/persistent/omnihydra/useSceneGraphInstancing'' True]\<rparr>)
         \<and> (\<not> headless \<longrightarrow>
              init h environ' headless sim_device out = init h environ headless sim_device out)"
  using assms by (cases headless) (simp_all add: init_def invoke_def)

theorem init_records_render_flag_witness:
  "init mock_host [''EXP_PATH'' \<mapsto> ''/isaac/apps''] True 3 mock_out =
     (Inr \<lparr>p_simulation_app = 7, p_render = False, sim_frame_count = 0,
           p_world = None, p_task = None, p_num_envs = None, observation_space = None,
           action_space = None\<rparr>,
      \<lparr>ext = 0,
       calls = [Environ_getitem ''EXP_PATH'',
                SimulationApp_init True 3
                  ''/isaac/apps/omni.isaac.sim.python.gym.headless.kit'',
                Settings_set ''/persistent/omnihydra/useSceneGraphInstancing'' True]\<rparr>)
   \<and> init mock_host Map.empty False 0 mock_out =
     (Inr mock_unbound,
      \<lparr>ext = 0,
       calls = [SimulationApp_init False 0 [],
                Settings_set ''/persistent/omnihydra/useSceneGraphInstancing'' True]\<rparr>)"
  using init_records_render_flag [of True "[''EXP_PATH'' \<mapsto> ''/isaac/apps'']" "''/isaac/apps''"
      "''/isaac/apps/omni.isaac.sim.python.gym.headless.kit''" mock_host 3 mock_out 7 0 "()" 0
      Map.empty]
    init_records_render_flag [of False Map.empty "[]" "[]" mock_host 0 mock_out 7 0 "()" 0
      Map.empty]
  by (simp add: mock_host_def mock_out_def mock_unbound_def)


section \<open>Seeding\<close>

text \<open>
  Claim C8. \<^verbatim>\<open>seed(value)\<close> makes one call, \<^verbatim>\<open>set_seed(value)\<close>, with the value
  as it was given, whatever the value is, and returns what the utility returns. With the
  seeding utility as the spec describes it, \<^verbatim>\<open>seed(value)\<close> returns \<open>value\<close> for
  every \<open>value\<close> other than -1, so \<^verbatim>\<open>seed(5)\<close> returns 5, and \<^verbatim>\<open>seed(-1)\<close> returns
  the seed the utility draws.
\<close>

theorem seed_forwards_value:
  "seed h value self out =
     (fst (set_seed h value (ext out)), self,
      \<lparr>ext = snd (set_seed h value (ext out)), calls = calls out @ [Set_seed value]\<rparr>)
   \<and> (set_seed h = set_seed_spec random_seed \<longrightarrow>
        (value \<noteq> - 1 \<longrightarrow>
           seed h value self out =
             (Inr value, self, \<lparr>ext = ext out, calls = calls out @ [Set_seed value]\<rparr>))
        \<and> seed h 5 self out = (Inr 5, self, \<lparr>ext = ext out, calls = calls out @ [Set_seed 5]\<rparr>)
        \<and> seed h (- 1) self out =
             (Inr (fst (random_seed (ext out))), self,
              \<lparr>ext = snd (random_seed (ext out)), calls = calls out @ [Set_seed (- 1)]\<rparr>))"
  by (simp add: seed_def invoke_eq set_seed_spec_def split: prod.split)

theorem seed_forwards_value_witness:
  "set_seed mock_seeding_host = set_seed_spec (\<lambda>x. (x mod 10000, x + 1))
   \<and> seed mock_seeding_host 5 mock_env mock_out = (Inr 5, mock_env, \<lparr>ext = 0, calls = [Set_seed 5]\<rparr>)
   \<and> seed mock_seeding_host (- 7) mock_env mock_out =
       (Inr (- 7), mock_env, \<lparr>ext = 0, calls = [Set_seed (- 7)]\<rparr>)
   \<and> seed mock_seeding_host (- 1) mock_env mock_out =
       (Inr 0, mock_env, \<lparr>ext = 1, calls = [Set_seed (- 1)]\<rparr>)"
proof -
  have s: "set_seed mock_seeding_host = set_seed_spec (\<lambda>x. (x mod 10000, x + 1))"
    by (simp add: mock_seeding_host_def)
  have n: "(- 7 :: int) \<noteq> - 1"
    by simp
  have a: "seed mock_seeding_host 5 mock_env mock_out =
             (Inr 5, mock_env, \<lparr>ext = ext mock_out, calls = calls mock_out @ [Set_seed 5]\<rparr>)"
    using s seed_forwards_value [of mock_seeding_host 5 mock_env mock_out "\<lambda>x. (x mod 10000, x + 1)"]
    by blast
  have b: "seed mock_seeding_host (- 7) mock_env mock_out =
             (Inr (- 7), mock_env,
              \<lparr>ext = ext mock_out, calls = calls mock_out @ [Set_seed (- 7)]\<rparr>)"
    using s n
      seed_forwards_value [of mock_seeding_host "- 7" mock_env mock_out "\<lambda>x. (x mod 10000, x + 1)"]
    by blast
  have c: "seed mock_seeding_host (- 1) mock_env mock_out =
             (Inr (fst ((\<lambda>x. (x mod 10000, x + 1)) (ext mock_out))), mock_env,
              \<lparr>ext = snd ((\<lambda>x. (x mod 10000, x + 1)) (ext mock_out)),
               calls = calls mock_out @ [Set_seed (- 1)]\<rparr>)"
    using s seed_forwards_value [of mock_seeding_host 5 mock_env mock_out "\<lambda>x. (x mod 10000, x + 1)"]
    by blast
  show ?thesis
    using s a b c by (simp add: mock_out_def)
qed


section \<open>A step that is aborted\<close>

text \<open>
  Claim C9. If the task's \<^verbatim>\<open>pre_physics_step\<close> raises, \<^verbatim>\<open>step(actions)\<close> raises the
  same exception, the world is not stepped, and the adapter, its frame counter included,
  is as it was. In general the frame counter is incremented by a step if and only if the
  pre-physics hook and the world tick have both returned.
\<close>

theorem step_aborted_not_counted:
  "(p_task self = Some t \<longrightarrow> fst (pre_physics_step t actions (ext out)) = Inl e \<longrightarrow>
      step h actions self out =
        (Inl e, self,
         \<lparr>ext = snd (pre_physics_step t actions (ext out)),
          calls = calls out @ [Pre_physics_step actions]\<rparr>)
      \<and> sim_frame_count (fst (snd (step h actions self out))) = sim_frame_count self)
   \<and> (sim_frame_count (fst (snd (step h actions self out))) = sim_frame_count self + 1
        \<longleftrightarrow>
      (\<exists>t w u1 u2. p_task self = Some t \<and> p_world self = Some w \<and>
         fst (pre_physics_step t actions (ext out)) = Inr u1 \<and>
         fst (world_step h w (p_render self) (snd (pre_physics_step t actions (ext out)))) =
           Inr u2))
   \<and> (sim_frame_count (fst (snd (step h actions self out))) \<noteq> sim_frame_count self + 1
        \<longrightarrow> fst (snd (step h actions self out)) = self)"
  by (auto simp: step_def invoke_eq Let_def split: option.splits sum.splits prod.splits)

theorem step_aborted_not_counted_witness:
  "step mock_host [] mock_env mock_out =
     (Inl (HostError ''empty actions''), mock_env, \<lparr>ext = 0, calls = [Pre_physics_step []]\<rparr>)
   \<and> sim_frame_count (fst (snd (step mock_host [] mock_env mock_out))) =
       sim_frame_count mock_env"
  using step_aborted_not_counted [of mock_env mock_task "[]" mock_out
      "HostError ''empty actions''" mock_host]
  by (simp add: mock_env_def mock_task_def mock_out_def)


section \<open>Rendering and the adapter's attributes\<close>

text \<open>
  Claim C10. \<^verbatim>\<open>render(mode)\<close> assigns no attribute of the adapter, for every
  \<open>mode\<close> and whether it returns or raises: the adapter after the call is the adapter
  before it, so \<^verbatim>\<open>sim_frame_count\<close> is not incremented, also by any number of calls
  to \<^verbatim>\<open>render\<close> in a row. Frames that \<^verbatim>\<open>render\<close> produces are not counted.
\<close>

theorem render_leaves_adapter:
  "fst (snd (render h mode self out)) = self
   \<and> sim_frame_count (fst (snd (render h mode self out))) = sim_frame_count self
   \<and> fst (run h (map Call_render modes) self out) = self"
proof -
  have "fst (run h (map Call_render modes) self out) = self"
  proof (induction modes arbitrary: out)
    case Nil
    show ?case by simp
  next
    case (Cons m ms)
    have "fst (call h (Call_render m) self out) = self"
      by (simp add: call_def render_self)
    then obtain out' where "call h (Call_render m) self out = (self, out')"
      by (cases "call h (Call_render m) self out") simp
    then show ?case using Cons.IH [of out'] by simp
  qed
  then show ?thesis by (simp add: render_self)
qed

theorem render_leaves_adapter_witness:
  "fst (snd (render mock_host ''human'' mock_env mock_out)) = mock_env
   \<and> fst (snd (render mock_host ''rgb_array'' mock_env mock_out)) = mock_env
   \<and> sim_frame_count (fst (run mock_host [Call_render ''human'', Call_render ''rgb_array'']
        mock_env mock_out)) = 0"
  using render_leaves_adapter [of mock_host "''human''" mock_env mock_out "[]"]
    render_leaves_adapter [of mock_host "''rgb_array''" mock_env mock_out
      "[''human'', ''rgb_array'']"]
  by (simp add: mock_env_def)

end
